theory Spec2Isabelle
  imports Main "HOL-Library.Word"
begin

unbundle bit_operations_syntax

section \<open>The task queue reference service\<close>

text \<open>
  A shallow embedding of the Go package \<open>taskqueue\<close>: the task entity with its status
  and flag byte, the atomic statistics counters, and the worker pool (admission,
  per-task processing, shutdown). Go's fixed-width integers are words; \<open>time.Duration\<close>
  is an \<open>int64\<close> count of nanoseconds and \<open>time.Time\<close> an instant, read here as
  nanoseconds since the epoch.
\<close>

type_synonym Duration = "64 word"
type_synonym Time = int

subsection \<open>Task status\<close>

text \<open>\<open>type TaskStatus string\<close>: an open string type with four named constants.\<close>

type_synonym TaskStatus = string

definition TaskStatusPending :: TaskStatus where
  "TaskStatusPending = ''pending''"

definition TaskStatusProcessing :: TaskStatus where
  "TaskStatusProcessing = ''processing''"

definition TaskStatusCompleted :: TaskStatus where
  "TaskStatusCompleted = ''completed''"

definition TaskStatusFailed :: TaskStatus where
  "TaskStatusFailed = ''failed''"

text \<open>The set \<open>validStatuses\<close>, a \<open>map[TaskStatus]struct{}\<close>, as the list of its keys.\<close>

definition validStatuses :: "TaskStatus list" where
  "validStatuses =
     [TaskStatusPending, TaskStatusProcessing, TaskStatusCompleted, TaskStatusFailed]"

definition IsValidStatus :: "TaskStatus \<Rightarrow> bool" where
  "IsValidStatus status = (status \<in> set validStatuses)"

subsection \<open>Flag constants\<close>

definition TaskFlagNone :: "8 word" where
  "TaskFlagNone = 0"

definition TaskFlagUrgent :: "8 word" where
  "TaskFlagUrgent = push_bit 0 1"

definition TaskFlagRetryable :: "8 word" where
  "TaskFlagRetryable = push_bit 1 1"

definition TaskFlagLogged :: "8 word" where
  "TaskFlagLogged = push_bit 2 1"

definition TaskFlagMetrics :: "8 word" where
  "TaskFlagMetrics = push_bit 3 1"

subsection \<open>The task entity\<close>

text \<open>
  The struct \<open>Task\<close>. The payload \<open>map[string]interface{}\<close> is a map into a type
  parameter standing for the values of \<open>interface{}\<close>; \<open>int\<close> is 64 bits wide on the
  platforms the struct's layout comments assume.
\<close>

record 'v Task =
  Data :: "string \<rightharpoonup> 'v"
  CreatedAt :: Time
  UpdatedAt :: Time
  ID :: string
  Type :: string
  Status :: TaskStatus
  Retries :: "64 word"
  MaxRetries :: "64 word"
  Flags :: "8 word"

text \<open>\<open>t.Flags&flag != 0\<close>\<close>

definition HasFlag :: "'v Task \<Rightarrow> 8 word \<Rightarrow> bool" where
  "HasFlag t flag = (Flags t AND flag \<noteq> 0)"

text \<open>\<open>t.Flags |= flag\<close>\<close>

definition SetFlag :: "8 word \<Rightarrow> 'v Task \<Rightarrow> 'v Task" where
  "SetFlag flag t = t\<lparr>Flags := Flags t OR flag\<rparr>"

text \<open>\<open>t.Flags &^= flag\<close> (AND NOT)\<close>

definition ClearFlag :: "8 word \<Rightarrow> 'v Task \<Rightarrow> 'v Task" where
  "ClearFlag flag t = t\<lparr>Flags := Flags t AND NOT flag\<rparr>"

text \<open>\<open>t.Flags ^= flag\<close>\<close>

definition ToggleFlag :: "8 word \<Rightarrow> 'v Task \<Rightarrow> 'v Task" where
  "ToggleFlag flag t = t\<lparr>Flags := Flags t XOR flag\<rparr>"

definition IsUrgent :: "'v Task \<Rightarrow> bool" where
  "IsUrgent t = HasFlag t TaskFlagUrgent"

definition IsRetryable :: "'v Task \<Rightarrow> bool" where
  "IsRetryable t = HasFlag t TaskFlagRetryable"

definition ShouldLogMetrics :: "'v Task \<Rightarrow> bool" where
  "ShouldLogMetrics t = HasFlag t TaskFlagMetrics"

text \<open>
  \<open>CanTransition\<close>: a \<open>switch\<close> on the current status, with the cases in the
  source's order and its \<open>default\<close> branch.
\<close>

definition CanTransition :: "'v Task \<Rightarrow> TaskStatus \<Rightarrow> bool" where
  "CanTransition t newStatus =
     (if Status t = TaskStatusPending then newStatus = TaskStatusProcessing
      else if Status t = TaskStatusProcessing
        then newStatus = TaskStatusCompleted \<or> newStatus = TaskStatusFailed
      else if Status t = TaskStatusCompleted \<or> Status t = TaskStatusFailed then False
      else False)"

subsection \<open>Statistics counters\<close>

text \<open>
  \<open>WorkerStats\<close>: each field is an atomic; an atomic add or store is one step of the
  model. The flag \<open>running\<close> of the struct is the field \<open>collecting\<close> here, because the
  pool has a field \<open>running\<close> of its own.
\<close>

record WorkerStats =
  tasksSubmitted :: "64 word"
  tasksProcessed :: "64 word"
  tasksFailed :: "64 word"
  tasksRetried :: "64 word"
  totalProcessTime :: "64 word"
  activeWorkers :: "32 word"
  collecting :: bool

definition NewWorkerStats :: WorkerStats where
  "NewWorkerStats =
     \<lparr>tasksSubmitted = 0, tasksProcessed = 0, tasksFailed = 0, tasksRetried = 0,
      totalProcessTime = 0, activeWorkers = 0, collecting = True\<rparr>"

definition RecordSubmission :: "WorkerStats \<Rightarrow> WorkerStats" where
  "RecordSubmission s = s\<lparr>tasksSubmitted := tasksSubmitted s + 1\<rparr>"

text \<open>
  \<open>uint64(duration.Nanoseconds())\<close> keeps the 64 bits of the duration, so the
  conversion is the identity on the word.
\<close>

definition RecordProcessed :: "Duration \<Rightarrow> WorkerStats \<Rightarrow> WorkerStats" where
  "RecordProcessed duration s =
     s\<lparr>tasksProcessed := tasksProcessed s + 1,
       totalProcessTime := totalProcessTime s + duration\<rparr>"

definition RecordFailed :: "WorkerStats \<Rightarrow> WorkerStats" where
  "RecordFailed s = s\<lparr>tasksFailed := tasksFailed s + 1\<rparr>"

definition RecordRetry :: "WorkerStats \<Rightarrow> WorkerStats" where
  "RecordRetry s = s\<lparr>tasksRetried := tasksRetried s + 1\<rparr>"

definition IncrementActive :: "WorkerStats \<Rightarrow> WorkerStats" where
  "IncrementActive s = s\<lparr>activeWorkers := activeWorkers s + 1\<rparr>"

text \<open>\<open>s.activeWorkers.Add(^uint32(0))\<close>\<close>

definition DecrementActive :: "WorkerStats \<Rightarrow> WorkerStats" where
  "DecrementActive s = s\<lparr>activeWorkers := activeWorkers s + NOT 0\<rparr>"

definition GetSubmitted :: "WorkerStats \<Rightarrow> 64 word" where
  "GetSubmitted s = tasksSubmitted s"

definition GetProcessed :: "WorkerStats \<Rightarrow> 64 word" where
  "GetProcessed s = tasksProcessed s"

definition GetFailed :: "WorkerStats \<Rightarrow> 64 word" where
  "GetFailed s = tasksFailed s"

text \<open>
  \<open>GetAverageProcessTime\<close>: the division is Go's \<open>uint64\<close> division, and
  \<open>time.Duration(avgNanos)\<close> keeps the 64 bits of the quotient.
\<close>

definition GetAverageProcessTime :: "WorkerStats \<Rightarrow> Duration" where
  "GetAverageProcessTime s =
     (let processed = tasksProcessed s in
      if processed = 0 then 0
      else let totalNanos = totalProcessTime s;
               avgNanos = totalNanos div processed
           in avgNanos)"

definition Reset :: "WorkerStats \<Rightarrow> WorkerStats" where
  "Reset s =
     s\<lparr>tasksSubmitted := 0, tasksProcessed := 0, tasksFailed := 0, tasksRetried := 0,
       totalProcessTime := 0, activeWorkers := 0\<rparr>"

definition Stop :: "WorkerStats \<Rightarrow> WorkerStats" where
  "Stop s = s\<lparr>collecting := False\<rparr>"

subsection \<open>Errors, contexts and channels\<close>

text \<open>
  Go's \<open>error\<close> values as far as the pool makes them: \<open>errors.New(text)\<close>,
  \<open>fmt.Errorf("prefix: %w", err)\<close> (the constructor keeps the prefix before the colon),
  and the two errors of package \<open>context\<close>. \<open>error_text\<close> is the method \<open>Error()\<close>.
\<close>

datatype error = New string | Errorf string error | Canceled | DeadlineExceeded

fun error_text :: "error \<Rightarrow> string" where
  "error_text (New s) = s"
| "error_text (Errorf prefix err) = prefix @ '': '' @ error_text err"
| "error_text Canceled = ''context canceled''"
| "error_text DeadlineExceeded = ''context deadline exceeded''"

text \<open>
  A \<open>context.Context\<close> as a caller observes it: the value of \<open>ctx.Err()\<close>, \<open>None\<close>
  while the context is not done. \<open>ctx.Done()\<close> can be received from exactly when it
  is \<open>Some\<close>. \<open>WithTimeout\<close> derives the child context; the flag says whether its
  deadline has passed.
\<close>

type_synonym Context = "error option"

definition WithTimeout :: "Context \<Rightarrow> bool \<Rightarrow> Context" where
  "WithTimeout ctx expired =
     (case ctx of Some e \<Rightarrow> Some e
      | None \<Rightarrow> if expired then Some DeadlineExceeded else None)"

text \<open>
  A buffered channel \<open>make(chan T, n)\<close>: the queued values, oldest first, the capacity
  and whether \<open>close\<close> was called. The pool makes its channels with a positive capacity
  (see \<open>applyWorkerDefaults\<close>), so a send can proceed exactly when the buffer has room:
  a receiver can only be waiting while the buffer is empty. A send on a closed channel
  can always proceed, and panics.
\<close>

record 'a chan =
  buf :: "'a list"
  cap :: nat
  closed :: bool

definition make_chan :: "nat \<Rightarrow> 'a chan" where
  "make_chan n = \<lparr>buf = [], cap = n, closed = False\<rparr>"

definition send_ready :: "'a chan \<Rightarrow> bool" where
  "send_ready c = (closed c \<or> length (buf c) < cap c)"

datatype panic = SendOnClosedChannel | CloseOfClosedChannel | NilPointerDereference

datatype 'a outcome = Returns 'a | Panics panic

text \<open>
  The \<open>select\<close> statements of the pool have a case receiving from \<open>ctx.Done()\<close>, a case
  sending on a channel, and a \<open>default\<close>. Go runs \<open>default\<close> when no case can proceed
  and otherwise picks one of the cases that can proceed at random; \<open>choice\<close> is
  the one it picks.
\<close>

datatype select_case = CaseDone | CaseSend

definition ready_cases :: "Context \<Rightarrow> 'a chan \<Rightarrow> select_case list" where
  "ready_cases ctx c =
     (if ctx \<noteq> None then [CaseDone] else []) @ (if send_ready c then [CaseSend] else [])"

definition select_case :: "nat \<Rightarrow> select_case list \<Rightarrow> select_case option" where
  "select_case choice ready =
     (if ready = [] then None else Some (ready ! (choice mod length ready)))"

subsection \<open>Task results and collaborators\<close>

record 'v TaskResult =
  Output :: "string \<rightharpoonup> 'v"
  Timestamp :: Time
  TaskID :: string
  Error :: string
  Duration :: Duration
  Success :: bool

text \<open>
  The interfaces \<open>TaskRepository\<close>, \<open>TaskExecutor\<close> and \<open>MessagePublisher\<close>, as far as
  the pool calls them. An implementation is a function on the collaborator's own state
  (\<open>'r\<close>, \<open>'e\<close>, \<open>'p\<close>); Go's result pairs \<open>(value, error)\<close> are pairs of options. The
  implementations leave the task they are handed as it is.
\<close>

record ('r, 'e, 'p, 'v) collaborators =
  UpdateStatus :: "Context \<Rightarrow> string \<Rightarrow> TaskStatus \<Rightarrow> 'r \<Rightarrow> error option \<times> 'r"
  Execute :: "Context \<Rightarrow> 'v Task \<Rightarrow> 'e \<Rightarrow> ('v TaskResult option \<times> error option) \<times> 'e"
  Publish :: "Context \<Rightarrow> string \<Rightarrow> string \<Rightarrow> 'p \<Rightarrow> error option \<times> 'p"

text \<open>The calls a pool has made on its collaborators, in order.\<close>

datatype call =
    CallUpdateStatus string TaskStatus
  | CallExecute string
  | CallPublish string string

datatype level = LevelInfo | LevelWarn | LevelError

subsection \<open>The worker pool\<close>

text \<open>
  The struct \<open>Worker\<close>. The collaborator fields hold the collaborators' states, \<open>logger\<close>
  the records logged so far (level and message), \<open>stats\<close> the counters behind the
  pointer, and \<open>calls\<close> the collaborator calls made so far. The mutex guards each read
  and write of \<open>running\<close>, which is one step here; the wait group only matters to the
  wait inside \<open>Shutdown\<close>.
\<close>

record ('r, 'e, 'p, 'v) Worker =
  repo :: 'r
  executor :: 'e
  publisher :: 'p
  logger :: "(level \<times> string) list"
  stats :: WorkerStats
  workerCount :: "64 word"
  taskChan :: "'v Task chan"
  resultChan :: "'v TaskResult chan"
  shutdownTimeout :: Duration
  processTimeout :: Duration
  running :: bool
  calls :: "call list"

record ('r, 'e, 'p) WorkerConfig =
  Repository :: "'r option"
  Executor :: "'e option"
  Publisher :: "'p option"
  Logger :: "(level \<times> string) list option"
  Stats :: "WorkerStats option"
  WorkerCount :: "64 word"
  BufferSize :: "64 word"
  ShutdownTimeout :: Duration
  ProcessTimeout :: Duration

definition DefaultWorkerCount :: "64 word" where
  "DefaultWorkerCount = 5"

definition DefaultBufferSize :: "64 word" where
  "DefaultBufferSize = 100"

definition DefaultShutdownTimeout :: Duration where
  "DefaultShutdownTimeout = 30 * 1000000000"

definition DefaultProcessTimeout :: Duration where
  "DefaultProcessTimeout = 60 * 1000000000"

definition validateWorkerConfig :: "('r, 'e, 'p) WorkerConfig \<Rightarrow> error option" where
  "validateWorkerConfig cfg =
     (if Repository cfg = None then Some (New ''repository is required'')
      else if Executor cfg = None then Some (New ''executor is required'')
      else if Publisher cfg = None then Some (New ''publisher is required'')
      else None)"

definition applyWorkerDefaults :: "('r, 'e, 'p) WorkerConfig \<Rightarrow> ('r, 'e, 'p) WorkerConfig" where
  "applyWorkerDefaults cfg =
     (let cfg = (if Logger cfg = None then cfg\<lparr>Logger := Some []\<rparr> else cfg);
          cfg = (if Stats cfg = None then cfg\<lparr>Stats := Some NewWorkerStats\<rparr> else cfg);
          cfg = (if sint (WorkerCount cfg) \<le> 0 then cfg\<lparr>WorkerCount := DefaultWorkerCount\<rparr> else cfg);
          cfg = (if sint (BufferSize cfg) \<le> 0 then cfg\<lparr>BufferSize := DefaultBufferSize\<rparr> else cfg);
          cfg = (if ShutdownTimeout cfg = 0 then cfg\<lparr>ShutdownTimeout := DefaultShutdownTimeout\<rparr> else cfg);
          cfg = (if ProcessTimeout cfg = 0 then cfg\<lparr>ProcessTimeout := DefaultProcessTimeout\<rparr> else cfg)
      in cfg)"

text \<open>
  \<open>NewWorker\<close>. The configuration's interface and pointer fields are options, nil
  being \<open>None\<close>; after the validation and the defaults all five are set, and the last
  case of the model only covers the combinations these exclude.
\<close>

definition NewWorker :: "('r, 'e, 'p) WorkerConfig \<Rightarrow> error + ('r, 'e, 'p, 'v) Worker" where
  "NewWorker cfg0 =
     (case validateWorkerConfig cfg0 of
        Some err \<Rightarrow> Inl err
      | None \<Rightarrow>
          (let cfg = applyWorkerDefaults cfg0 in
           case (Repository cfg, Executor cfg, Publisher cfg, Logger cfg, Stats cfg) of
             (Some r, Some e, Some p, Some l, Some s) \<Rightarrow>
               Inr \<lparr>repo = r, executor = e, publisher = p, logger = l, stats = s,
                    workerCount = WorkerCount cfg,
                    taskChan = make_chan (nat (sint (BufferSize cfg))),
                    resultChan = make_chan (nat (sint (BufferSize cfg))),
                    shutdownTimeout = ShutdownTimeout cfg,
                    processTimeout = ProcessTimeout cfg,
                    running = False, calls = []\<rparr>
           | _ \<Rightarrow> Inl (New ''nil collaborator'')))"

definition log_record :: "level \<Rightarrow> string \<Rightarrow> ('r, 'e, 'p, 'v) Worker \<Rightarrow> ('r, 'e, 'p, 'v) Worker" where
  "log_record lvl msg w = w\<lparr>logger := logger w @ [(lvl, msg)]\<rparr>"

text \<open>
  \<open>Start\<close>, as far as the caller's goroutine runs it. The worker loops and the result
  loop it spawns are the steps of the interleaving model further down.
\<close>

definition Start :: "Context \<Rightarrow> ('r, 'e, 'p, 'v) Worker \<Rightarrow> error option \<times> ('r, 'e, 'p, 'v) Worker" where
  "Start ctx w =
     (if running w then (Some (New ''worker already running''), w)
      else (None, log_record LevelInfo ''worker pool started'' (w\<lparr>running := True\<rparr>)))"

definition updateTaskStatus ::
  "('r, 'e, 'p, 'v) collaborators \<Rightarrow> Context \<Rightarrow> string \<Rightarrow> TaskStatus \<Rightarrow>
   ('r, 'e, 'p, 'v) Worker \<Rightarrow> error option \<times> ('r, 'e, 'p, 'v) Worker" where
  "updateTaskStatus c ctx taskID status w =
     (let (err, r) = UpdateStatus c ctx taskID status (repo w);
          w1 = w\<lparr>repo := r, calls := calls w @ [CallUpdateStatus taskID status]\<rparr>
      in case err of
           Some e \<Rightarrow> (Some (Errorf ''update status'' e), w1)
         | None \<Rightarrow> (None, w1))"

definition executeTask ::
  "('r, 'e, 'p, 'v) collaborators \<Rightarrow> Context \<Rightarrow> 'v Task \<Rightarrow> ('r, 'e, 'p, 'v) Worker \<Rightarrow>
   ('v TaskResult option \<times> error option) \<times> ('r, 'e, 'p, 'v) Worker" where
  "executeTask c ctx task w =
     (case updateTaskStatus c ctx (ID task) TaskStatusProcessing w of
        (Some err, w1) \<Rightarrow> ((None, Some (Errorf ''update status'' err)), w1)
      | (None, w1) \<Rightarrow>
          (let ((result, err), e) = Execute c ctx task (executor w1);
               w2 = w1\<lparr>executor := e, calls := calls w1 @ [CallExecute (ID task)]\<rparr>
           in case err of
                Some err \<Rightarrow>
                  (let (updateErr, w3) = updateTaskStatus c ctx (ID task) TaskStatusFailed w2;
                       w4 = (if updateErr \<noteq> None
                             then log_record LevelError ''failed to update task status'' w3
                             else w3)
                   in ((None, Some (Errorf ''execute task'' err)), w4))
              | None \<Rightarrow>
                  (case updateTaskStatus c ctx (ID task) TaskStatusCompleted w2 of
                     (Some err, w3) \<Rightarrow> ((None, Some (Errorf ''update completed status'' err)), w3)
                   | (None, w3) \<Rightarrow> ((result, None), w3))))"

text \<open>
  \<open>sendResult\<close>: the three-way \<open>select\<close> on the result channel. The result says
  whether the send panicked.
\<close>

definition sendResult ::
  "nat \<Rightarrow> Context \<Rightarrow> 'v TaskResult \<Rightarrow> ('r, 'e, 'p, 'v) Worker \<Rightarrow>
   panic option \<times> ('r, 'e, 'p, 'v) Worker" where
  "sendResult choice ctx result w =
     (case select_case choice (ready_cases ctx (resultChan w)) of
        Some CaseDone \<Rightarrow>
          (None, log_record LevelWarn ''context cancelled, dropping result'' w)
      | Some CaseSend \<Rightarrow>
          (if closed (resultChan w) then (Some SendOnClosedChannel, w)
           else (None, w\<lparr>resultChan := (resultChan w)\<lparr>buf := buf (resultChan w) @ [result]\<rparr>\<rparr>))
      | None \<Rightarrow>
          (None, log_record LevelError ''result channel full, dropping result'' w))"

text \<open>
  \<open>formatResultMessage\<close>, the format \<open>{"task_id":"%s","success":%t}\<close>, and
  \<open>publishResult\<close>, which the result loop runs on every result it receives.
\<close>

definition formatResultMessage :: "'v TaskResult \<Rightarrow> string" where
  \<open>formatResultMessage result =
     ''{"task_id":"'' @ TaskID result @ ''","success":'' @
     (if Success result then ''true'' else ''false'') @ ''}''\<close>

definition publishResult ::
  "('r, 'e, 'p, 'v) collaborators \<Rightarrow> Context \<Rightarrow> 'v TaskResult \<Rightarrow>
   ('r, 'e, 'p, 'v) Worker \<Rightarrow> ('r, 'e, 'p, 'v) Worker" where
  "publishResult c ctx result w =
     (let topic = ''task.results'';
          message = formatResultMessage result;
          (err, p) = Publish c ctx topic message (publisher w);
          w1 = w\<lparr>publisher := p, calls := calls w @ [CallPublish topic message]\<rparr>
      in if err \<noteq> None then log_record LevelError ''failed to publish result'' w1
         else log_record LevelInfo ''result published'' w1)"

text \<open>
  What a call of \<open>processTask\<close> observes of its surroundings: the choice of its
  \<open>select\<close>, \<open>time.Since(start)\<close>, \<open>time.Now()\<close> in \<open>handleTaskError\<close>, and whether the
  processing deadline has passed.
\<close>

record observed =
  pick :: nat
  since :: Duration
  now :: Time
  deadline_passed :: bool

text \<open>
  The parts of \<open>handleTaskError\<close> between its counter and its send: the log record
  with the retry counter, and the result it builds (\<open>Output\<close> is left nil, which
  reads as the empty map).
\<close>

definition note_failure :: "'v Task \<Rightarrow> ('r, 'e, 'p, 'v) Worker \<Rightarrow> ('r, 'e, 'p, 'v) Worker" where
  "note_failure task w =
     (let w2 = log_record LevelError ''task execution failed'' w
      in if 0 < sint (Retries task) then w2\<lparr>stats := RecordRetry (stats w2)\<rparr> else w2)"

definition failure_result :: "Time \<Rightarrow> 'v Task \<Rightarrow> error \<Rightarrow> 'v TaskResult" where
  "failure_result t task err =
     \<lparr>Output = Map.empty, Timestamp = t, TaskID = ID task,
      Error = error_text err, Duration = 0, Success = False\<rparr>"

definition handleTaskError ::
  "observed \<Rightarrow> Context \<Rightarrow> 'v Task \<Rightarrow> error \<Rightarrow> ('r, 'e, 'p, 'v) Worker \<Rightarrow>
   panic option \<times> ('r, 'e, 'p, 'v) Worker" where
  "handleTaskError ob ctx task err w =
     (let w1 = w\<lparr>stats := RecordFailed (stats w)\<rparr>;
          w3 = note_failure task w1;
          result = failure_result (now ob) task err
      in sendResult (pick ob) ctx result w3)"

text \<open>
  \<open>processTask\<close>. The deferred \<open>DecrementActive\<close> runs on every way out, a panic
  included. A nil result with a nil error from the executor is dereferenced at
  \<open>result.Duration = duration\<close>.
\<close>

definition processTask ::
  "('r, 'e, 'p, 'v) collaborators \<Rightarrow> observed \<Rightarrow> Context \<Rightarrow> 'v Task \<Rightarrow> nat \<Rightarrow>
   ('r, 'e, 'p, 'v) Worker \<Rightarrow> panic option \<times> ('r, 'e, 'p, 'v) Worker" where
  "processTask c ob ctx task workerID w =
     (let w1 = w\<lparr>stats := IncrementActive (stats w)\<rparr>;
          processCtx = WithTimeout ctx (deadline_passed ob);
          w2 = log_record LevelInfo ''processing task'' w1;
          ((result, err), w3) = executeTask c processCtx task w2;
          (p, w4) =
            (case err of
               Some err \<Rightarrow> handleTaskError ob ctx task err w3
             | None \<Rightarrow>
                 (case result of
                    None \<Rightarrow> (Some NilPointerDereference, w3)
                  | Some result \<Rightarrow>
                      (let duration = since ob;
                           result = result\<lparr>Duration := duration\<rparr>;
                           w5 = w3\<lparr>stats := RecordProcessed duration (stats w3)\<rparr>
                       in sendResult (pick ob) ctx result w5)))
      in (p, w4\<lparr>stats := DecrementActive (stats w4)\<rparr>))"

text \<open>
  \<open>SubmitTask\<close>: the check of \<open>running\<close>, the counter, then the three-way \<open>select\<close>
  on the task channel, which is \<open>admit\<close>.
\<close>

definition admit ::
  "nat \<Rightarrow> Context \<Rightarrow> 'v Task \<Rightarrow> ('r, 'e, 'p, 'v) Worker \<Rightarrow>
   error option outcome \<times> ('r, 'e, 'p, 'v) Worker" where
  "admit choice ctx task w =
     (case select_case choice (ready_cases ctx (taskChan w)) of
        Some CaseDone \<Rightarrow> (Returns ctx, w)
      | Some CaseSend \<Rightarrow>
          (if closed (taskChan w) then (Panics SendOnClosedChannel, w)
           else (Returns None,
                 w\<lparr>taskChan := (taskChan w)\<lparr>buf := buf (taskChan w) @ [task]\<rparr>\<rparr>))
      | None \<Rightarrow> (Returns (Some (New ''task queue full'')), w))"

definition SubmitTask ::
  "nat \<Rightarrow> Context \<Rightarrow> 'v Task \<Rightarrow> ('r, 'e, 'p, 'v) Worker \<Rightarrow>
   error option outcome \<times> ('r, 'e, 'p, 'v) Worker" where
  "SubmitTask choice ctx task w =
     (if \<not> running w then (Returns (Some (New ''worker not running'')), w)
      else admit choice ctx task (w\<lparr>stats := RecordSubmission (stats w)\<rparr>))"

text \<open>
  \<open>Shutdown\<close>, as far as the caller's goroutine and the goroutine it spawns run it.
  \<open>wait\<close> is the case its last \<open>select\<close> takes: \<open>Drained\<close> when the wait group came
  down to zero and the spawned goroutine closed the result channel, \<open>TimedOut\<close> when
  the shutdown context was done first.
\<close>

datatype wait = Drained | TimedOut

definition Shutdown ::
  "wait \<Rightarrow> Context \<Rightarrow> ('r, 'e, 'p, 'v) Worker \<Rightarrow>
   error option outcome \<times> ('r, 'e, 'p, 'v) Worker" where
  "Shutdown wt ctx w =
     (if \<not> running w then (Returns (Some (New ''worker not running'')), w)
      else
        (let w1 = w\<lparr>running := False\<rparr>;
             w2 = log_record LevelInfo ''shutting down worker pool'' w1
         in if closed (taskChan w2) then (Panics CloseOfClosedChannel, w2)
            else
              (let w3 = w2\<lparr>taskChan := (taskChan w2)\<lparr>closed := True\<rparr>\<rparr>
               in case wt of
                    Drained \<Rightarrow>
                      (if closed (resultChan w3) then (Panics CloseOfClosedChannel, w3)
                       else
                         (let w4 = w3\<lparr>resultChan := (resultChan w3)\<lparr>closed := True\<rparr>\<rparr>;
                              w5 = w4\<lparr>stats := Stop (stats w4)\<rparr>
                          in (Returns None,
                              log_record LevelInfo ''worker pool shutdown complete'' w5)))
                  | TimedOut \<Rightarrow>
                      (Returns (Some (Errorf ''shutdown timeout''
                                 (case ctx of Some e \<Rightarrow> e | None \<Rightarrow> DeadlineExceeded))),
                       w3))))"

definition IsRunning :: "('r, 'e, 'p, 'v) Worker \<Rightarrow> bool" where
  "IsRunning w = running w"

subsection \<open>Interleavings of submissions and worker loops\<close>

text \<open>
  Goroutines calling \<open>SubmitTask\<close>, the worker loops (\<open>processTasksLoop\<close> with
  \<open>processTask\<close>) and the result loop (\<open>processResultsLoop\<close>) share the pool. A step
  of the system is one access of one goroutine to the shared pool: the read of
  \<open>running\<close>, an atomic counter operation, a channel operation, or a call sequence on
  the collaborators (\<open>executeTask\<close>, \<open>publishResult\<close>). Between its steps a
  submitting goroutine or a worker is at one of the following places, holding its
  local variables; \<open>publishing\<close> holds the results received and not yet published.
  A loop that returns only writes a log record, so returning is no step, and
  \<open>Reset\<close> is not among the steps.
\<close>

datatype 'v submit_pc =
    Checked Context "'v Task"
  | Recorded Context "'v Task"

datatype 'v worker_pc =
    Received "'v Task"
  | Active "'v Task"
  | Executed "'v Task" "'v TaskResult option" "error option"
  | Failed "'v Task" error
  | Sending "'v TaskResult"
  | Leaving

record ('r, 'e, 'p, 'v) system =
  pool :: "('r, 'e, 'p, 'v) Worker"
  submitters :: "'v submit_pc list"
  workers :: "'v worker_pc list"
  publishing :: "'v TaskResult list"









subsection \<open>Test doubles\<close>

text \<open>
  The mocks of the package's tests: a repository that records status updates unless an
  \<open>UpdateStatusFunc\<close> is set, an executor that records the task and succeeds unless an
  \<open>ExecuteFunc\<close> is set, and a publisher that records messages. The task of
  \<open>BuildTestTask\<close> and the pool of \<open>createTestWorker\<close> after \<open>Start\<close>, with a given
  buffer size.
\<close>

type_synonym MockRepo = "string \<rightharpoonup> TaskStatus"
type_synonym MockExecutor = "string list"
type_synonym MockPublisher = "(string \<times> string) list"

definition MockCollaborators ::
  "(string \<Rightarrow> TaskStatus \<Rightarrow> error option) option \<Rightarrow>
   (string Task \<Rightarrow> string TaskResult option \<times> error option) option \<Rightarrow>
   (MockRepo, MockExecutor, MockPublisher, string) collaborators" where
  "MockCollaborators UpdateStatusFunc ExecuteFunc =
     \<lparr>UpdateStatus = (\<lambda>ctx taskID status r.
        case UpdateStatusFunc of
          Some f \<Rightarrow> (f taskID status, r)
        | None \<Rightarrow> (None, r(taskID \<mapsto> status))),
      Execute = (\<lambda>ctx task e.
        case ExecuteFunc of
          Some f \<Rightarrow> (f task, e @ [ID task])
        | None \<Rightarrow>
            ((Some \<lparr>Output = [''result'' \<mapsto> ''success''], Timestamp = 0, TaskID = ID task,
                     Error = [], Duration = 0, Success = True\<rparr>, None),
             e @ [ID task])),
      Publish = (\<lambda>ctx topic message p. (None, p @ [(topic, message)]))\<rparr>"

definition BuildTestTask :: "string Task" where
  "BuildTestTask =
     \<lparr>Data = [''key'' \<mapsto> ''value''], CreatedAt = 0, UpdatedAt = 0, ID = ''test-task-123'',
      Type = ''test'', Status = TaskStatusPending, Retries = 0, MaxRetries = 3, Flags = 0\<rparr>"

definition test_config :: "64 word \<Rightarrow> (MockRepo, MockExecutor, MockPublisher) WorkerConfig" where
  "test_config bufferSize =
     \<lparr>Repository = Some Map.empty, Executor = Some [], Publisher = Some [], Logger = None,
      Stats = None, WorkerCount = 2, BufferSize = bufferSize,
      ShutdownTimeout = 2 * 1000000000, ProcessTimeout = 1000000000\<rparr>"

definition started_pool :: "nat \<Rightarrow> (MockRepo, MockExecutor, MockPublisher, string) Worker" where
  "started_pool n =
     \<lparr>repo = Map.empty, executor = [], publisher = [],
      logger = [(LevelInfo, ''worker pool started'')], stats = NewWorkerStats,
      workerCount = 2, taskChan = make_chan n, resultChan = make_chan n,
      shutdownTimeout = 2 * 1000000000, processTimeout = 1000000000,
      running = True, calls = []\<rparr>"


section \<open>Properties of the task entity\<close>

lemma status_constants_distinct:
  "TaskStatusPending \<noteq> TaskStatusProcessing" "TaskStatusPending \<noteq> TaskStatusCompleted"
  "TaskStatusPending \<noteq> TaskStatusFailed" "TaskStatusProcessing \<noteq> TaskStatusCompleted"
  "TaskStatusProcessing \<noteq> TaskStatusFailed" "TaskStatusCompleted \<noteq> TaskStatusFailed"
  by (simp_all add: TaskStatusPending_def TaskStatusProcessing_def TaskStatusCompleted_def
      TaskStatusFailed_def)

text \<open>
  Claim C2. For a task whose status is one of the four named statuses and a proposed
  status among the four, \<open>CanTransition\<close> returns true exactly for the pairs
  (pending, processing), (processing, completed) and (processing, failed), and false
  for the other thirteen pairs.
\<close>

theorem CanTransition_table:
  assumes "Status t \<in> set validStatuses" and "newStatus \<in> set validStatuses"
  shows "CanTransition t newStatus =
           ((Status t, newStatus) \<in>
              {(TaskStatusPending, TaskStatusProcessing),
               (TaskStatusProcessing, TaskStatusCompleted),
               (TaskStatusProcessing, TaskStatusFailed)})"
  using assms status_constants_distinct
  by (auto simp add: CanTransition_def validStatuses_def)

theorem CanTransition_table_witness:
  "TaskStatusPending \<in> set validStatuses \<and> TaskStatusProcessing \<in> set validStatuses \<and>
   TaskStatusCompleted \<in> set validStatuses \<and>
   CanTransition \<lparr>Data = (Map.empty :: string \<rightharpoonup> unit), CreatedAt = 0, UpdatedAt = 0,
       ID = ''task-1'', Type = ''email'', Status = TaskStatusPending, Retries = 0,
       MaxRetries = 3, Flags = 0\<rparr> TaskStatusProcessing \<and>
   \<not> CanTransition \<lparr>Data = (Map.empty :: string \<rightharpoonup> unit), CreatedAt = 0, UpdatedAt = 0,
       ID = ''task-1'', Type = ''email'', Status = TaskStatusCompleted, Retries = 0,
       MaxRetries = 3, Flags = 0\<rparr> TaskStatusPending"
  using CanTransition_table [of "\<lparr>Data = (Map.empty :: string \<rightharpoonup> unit), CreatedAt = 0, UpdatedAt = 0,
       ID = ''task-1'', Type = ''email'', Status = TaskStatusPending, Retries = 0,
       MaxRetries = 3, Flags = 0\<rparr>" TaskStatusProcessing]
    CanTransition_table [of "\<lparr>Data = (Map.empty :: string \<rightharpoonup> unit), CreatedAt = 0, UpdatedAt = 0,
       ID = ''task-1'', Type = ''email'', Status = TaskStatusCompleted, Retries = 0,
       MaxRetries = 3, Flags = 0\<rparr>" TaskStatusPending]
    status_constants_distinct
  by (simp add: validStatuses_def)

text \<open>
  Claim C10. For a task whose status is any string other than the four named
  statuses, \<open>CanTransition\<close> returns false for every proposed status: the check is
  total over the string-typed status.
\<close>

theorem CanTransition_unknown_status:
  assumes "Status t \<notin> set validStatuses"
  shows "CanTransition t newStatus = False"
  using assms by (simp add: CanTransition_def validStatuses_def)

theorem CanTransition_unknown_status_witness:
  "''cancelled'' \<notin> set validStatuses \<and>
   CanTransition \<lparr>Data = (Map.empty :: string \<rightharpoonup> unit), CreatedAt = 0, UpdatedAt = 0,
       ID = ''task-1'', Type = ''email'', Status = ''cancelled'', Retries = 0,
       MaxRetries = 3, Flags = 0\<rparr> TaskStatusProcessing = False"
proof -
  have h: "''cancelled'' \<notin> set validStatuses"
    by (simp add: validStatuses_def TaskStatusPending_def TaskStatusProcessing_def
        TaskStatusCompleted_def TaskStatusFailed_def)
  show ?thesis
    using h CanTransition_unknown_status [of "\<lparr>Data = (Map.empty :: string \<rightharpoonup> unit), CreatedAt = 0, UpdatedAt = 0,
       ID = ''task-1'', Type = ''email'', Status = ''cancelled'', Retries = 0,
       MaxRetries = 3, Flags = 0\<rparr>" TaskStatusProcessing]
    by simp
qed

section \<open>Properties of the task flags\<close>

lemma flag_constants_nonzero:
  "f \<in> {TaskFlagUrgent, TaskFlagRetryable, TaskFlagLogged, TaskFlagMetrics} \<Longrightarrow> f \<noteq> 0"
  by (auto simp add: TaskFlagUrgent_def TaskFlagRetryable_def TaskFlagLogged_def
      TaskFlagMetrics_def)

text \<open>
  Claim C8. For every task and each of the four flag constants, \<open>SetFlag\<close>,
  \<open>ClearFlag\<close> and \<open>ToggleFlag\<close> change the field \<open>Flags\<close> only; after \<open>SetFlag\<close> the
  flag is set, after \<open>ClearFlag\<close> it is not, and toggling twice gives the task back.
  The four operations are total functions with no error result.
\<close>

theorem flag_operations:
  assumes "f \<in> {TaskFlagUrgent, TaskFlagRetryable, TaskFlagLogged, TaskFlagMetrics}"
  shows "SetFlag f t = t\<lparr>Flags := Flags (SetFlag f t)\<rparr> \<and>
         ClearFlag f t = t\<lparr>Flags := Flags (ClearFlag f t)\<rparr> \<and>
         ToggleFlag f t = t\<lparr>Flags := Flags (ToggleFlag f t)\<rparr> \<and>
         HasFlag (SetFlag f t) f \<and>
         \<not> HasFlag (ClearFlag f t) f \<and>
         Flags (ToggleFlag f (ToggleFlag f t)) = Flags t \<and>
         ToggleFlag f (ToggleFlag f t) = t"
proof -
  have nz: "f \<noteq> 0" using assms by (rule flag_constants_nonzero)
  have a: "(Flags t OR f) AND f = f" by (simp add: word_ao_absorbs)
  have b: "(Flags t AND NOT f) AND f = 0" by (simp add: and.assoc)
  have c: "(Flags t XOR f) XOR f = Flags t" by (simp add: xor.assoc)
  show ?thesis
    using nz a b c by (simp add: SetFlag_def ClearFlag_def ToggleFlag_def HasFlag_def)
qed

theorem flag_operations_witness:
  "TaskFlagLogged \<in> {TaskFlagUrgent, TaskFlagRetryable, TaskFlagLogged, TaskFlagMetrics} \<and>
   Flags (SetFlag TaskFlagLogged BuildTestTask) = 4 \<and>
   HasFlag (SetFlag TaskFlagLogged BuildTestTask) TaskFlagLogged \<and>
   \<not> HasFlag (ClearFlag TaskFlagLogged (SetFlag TaskFlagLogged BuildTestTask)) TaskFlagLogged \<and>
   ToggleFlag TaskFlagLogged (ToggleFlag TaskFlagLogged BuildTestTask) = BuildTestTask"
  using flag_operations [of TaskFlagLogged BuildTestTask]
    flag_operations [of TaskFlagLogged "SetFlag TaskFlagLogged BuildTestTask"]
  by (simp add: SetFlag_def BuildTestTask_def TaskFlagLogged_def)

section \<open>Properties of the statistics\<close>

lemma sint_eq_unat_gen:
  fixes x :: "'a::len word"
  assumes "unat x < 2 ^ (LENGTH('a) - Suc 0)"
  shows "sint x = int (unat x)"
proof -
  have "int (unat x) < int (2 ^ (LENGTH('a) - Suc 0))"
    using assms by (simp only: of_nat_less_iff)
  then have lt: "uint x < 2 ^ (LENGTH('a) - Suc 0)"
    by simp
  have "- (2 ^ (LENGTH('a) - Suc 0)) \<le> (0::int)" by simp
  also have "0 \<le> uint x" by simp
  finally have ge: "- (2 ^ (LENGTH('a) - Suc 0)) \<le> uint x" .
  have "signed_take_bit (LENGTH('a) - Suc 0) (uint x) = uint x"
    using ge lt by (rule signed_take_bit_int_eq_self)
  then show ?thesis by (simp add: sint_uint)
qed

lemma sint_small: "unat (x :: 64 word) < 2 ^ 63 \<Longrightarrow> sint x = int (unat x)"
  using sint_eq_unat_gen [of x] by simp

text \<open>
  Claim C7. \<open>GetAverageProcessTime\<close> returns 0 when the processed counter is 0, and
  otherwise the accumulated processing time in nanoseconds divided by the processed
  count, by integer division: as 64-bit values, as natural numbers, and as the signed
  nanoseconds of the returned duration whenever the quotient is below \<open>2 ^ 63\<close>.
\<close>

theorem GetAverageProcessTime_quotient:
  "GetAverageProcessTime s =
     (if GetProcessed s = 0 then 0 else totalProcessTime s div tasksProcessed s) \<and>
   unat (GetAverageProcessTime s) =
     (if unat (GetProcessed s) = 0 then 0
      else unat (totalProcessTime s) div unat (tasksProcessed s)) \<and>
   (unat (totalProcessTime s) div unat (tasksProcessed s) < 2 ^ 63 \<longrightarrow>
      sint (GetAverageProcessTime s) =
        int (unat (totalProcessTime s) div unat (tasksProcessed s)))"
proof -
  have q: "GetAverageProcessTime s = totalProcessTime s div tasksProcessed s"
    by (simp add: GetAverageProcessTime_def Let_def)
  have u: "unat (GetAverageProcessTime s) = unat (totalProcessTime s) div unat (tasksProcessed s)"
    by (simp add: q unat_div)
  show ?thesis
    using u sint_small [of "GetAverageProcessTime s"]
    by (simp add: q GetProcessed_def)
qed

theorem GetAverageProcessTime_quotient_witness:
  "unat (totalProcessTime (RecordProcessed 300000000 (RecordProcessed 200000000
       (RecordProcessed 100000000 NewWorkerStats)))) div
     unat (tasksProcessed (RecordProcessed 300000000 (RecordProcessed 200000000
       (RecordProcessed 100000000 NewWorkerStats)))) < 2 ^ 63 \<and>
   GetAverageProcessTime (RecordProcessed 300000000 (RecordProcessed 200000000
       (RecordProcessed 100000000 NewWorkerStats))) = 200000000 \<and>
   sint (GetAverageProcessTime (RecordProcessed 300000000 (RecordProcessed 200000000
       (RecordProcessed 100000000 NewWorkerStats)))) = 200000000 \<and>
   GetAverageProcessTime NewWorkerStats = 0"
  using GetAverageProcessTime_quotient [of "RecordProcessed 300000000 (RecordProcessed 200000000
       (RecordProcessed 100000000 NewWorkerStats))"]
    GetAverageProcessTime_quotient [of NewWorkerStats]
  by (simp add: RecordProcessed_def NewWorkerStats_def GetProcessed_def)

section \<open>Properties of the worker pool\<close>

lemma started_pool_reachable:
  "map_sum id (Start None) (NewWorker (test_config 10)) = Inr (None, started_pool 10)"
  by (simp add: NewWorker_def validateWorkerConfig_def applyWorkerDefaults_def test_config_def
      Start_def started_pool_def log_record_def Let_def)

lemma started_pool_1_reachable:
  "map_sum id (Start None) (NewWorker (test_config 1)) = Inr (None, started_pool 1)"
  by (simp add: NewWorker_def validateWorkerConfig_def applyWorkerDefaults_def test_config_def
      Start_def started_pool_def log_record_def Let_def)

lemma capacity_positive:
  "NewWorker cfg = Inr w \<Longrightarrow> 0 < cap (taskChan w) \<and> 0 < cap (resultChan w)"
  by (auto simp add: NewWorker_def applyWorkerDefaults_def make_chan_def Let_def
      DefaultBufferSize_def split: option.splits if_splits)

lemma admit_stats [simp]: "stats (snd (admit choice ctx task w)) = stats w"
  by (simp add: admit_def split: option.splits select_case.splits)

lemma admit_running [simp]: "running (snd (admit choice ctx task w)) = running w"
  by (simp add: admit_def split: option.splits select_case.splits)

text \<open>
  Claim C1, as the code has it. \<open>SubmitTask\<close> increments the submitted counter exactly
  once on every call that finds the pool running, before the admission \<open>select\<close>: on
  success, and as well when the call then returns the context's error or "task queue
  full". It leaves the counters alone only when it returns "worker not running".
\<close>

theorem SubmitTask_counts_every_running_call:
  "(running w \<longrightarrow>
      stats (snd (SubmitTask choice ctx task w)) = RecordSubmission (stats w) \<and>
      tasksSubmitted (stats (snd (SubmitTask choice ctx task w))) = tasksSubmitted (stats w) + 1) \<and>
   (\<not> running w \<longrightarrow>
      SubmitTask choice ctx task w = (Returns (Some (New ''worker not running'')), w)) \<and>
   (fst (SubmitTask choice ctx task w) = Returns None \<longrightarrow>
      running w \<and>
      tasksSubmitted (stats (snd (SubmitTask choice ctx task w))) = tasksSubmitted (stats w) + 1)"
  by (simp add: SubmitTask_def RecordSubmission_def)

lemma submit_first:
  "SubmitTask 0 None BuildTestTask (started_pool 1) =
     (Returns None,
      (started_pool 1)\<lparr>stats := RecordSubmission NewWorkerStats,
        taskChan := \<lparr>buf = [BuildTestTask], cap = 1, closed = False\<rparr>\<rparr>)"
  by (simp add: SubmitTask_def admit_def started_pool_def ready_cases_def send_ready_def
      select_case_def make_chan_def)

theorem SubmitTask_counts_every_running_call_witness:
  "running (started_pool 1) \<and>
   fst (SubmitTask 0 None BuildTestTask (started_pool 1)) = Returns None \<and>
   tasksSubmitted (stats (snd (SubmitTask 0 None BuildTestTask (started_pool 1)))) = 1 \<and>
   \<not> running ((started_pool 1)\<lparr>running := False\<rparr>) \<and>
   SubmitTask 0 None BuildTestTask ((started_pool 1)\<lparr>running := False\<rparr>) =
     (Returns (Some (New ''worker not running'')), (started_pool 1)\<lparr>running := False\<rparr>)"
  using SubmitTask_counts_every_running_call [of "started_pool 1" 0 None BuildTestTask]
    SubmitTask_counts_every_running_call [of "(started_pool 1)\<lparr>running := False\<rparr>" 0 None BuildTestTask]
    submit_first
  by (simp add: started_pool_def NewWorkerStats_def)

text \<open>
  Claim C1 as stated fails: a call rejected with "task queue full" takes the submitted
  counter from 1 to 2, and a call rejected with the context's error takes it from 0
  to 1.
\<close>

theorem SubmitTask_counts_rejected_submission:
  "fst (SubmitTask 0 None BuildTestTask (snd (SubmitTask 0 None BuildTestTask (started_pool 1)))) =
     Returns (Some (New ''task queue full'')) \<and>
   tasksSubmitted (stats (snd (SubmitTask 0 None BuildTestTask (started_pool 1)))) = 1 \<and>
   tasksSubmitted (stats (snd (SubmitTask 0 None BuildTestTask
     (snd (SubmitTask 0 None BuildTestTask (started_pool 1)))))) = 2 \<and>
   fst (SubmitTask 0 (Some Canceled) BuildTestTask (started_pool 1)) = Returns (Some Canceled) \<and>
   tasksSubmitted (stats (started_pool 1)) = 0 \<and>
   tasksSubmitted (stats (snd (SubmitTask 0 (Some Canceled) BuildTestTask (started_pool 1)))) = 1"
  by (simp add: SubmitTask_def admit_def started_pool_def ready_cases_def send_ready_def
      select_case_def make_chan_def RecordSubmission_def NewWorkerStats_def)

text \<open>
  Claim C4 at a context that is already done: on a running pool whose task channel has
  room, both the \<open>ctx.Done()\<close> case and the send case of the \<open>select\<close> can proceed, and
  when the send case is picked the task is enqueued and \<open>SubmitTask\<close> returns no error.
  The lemmas after it give the admission decision in the other situations.
\<close>

theorem SubmitTask_cancelled_context_may_enqueue:
  "fst (SubmitTask 1 (Some Canceled) BuildTestTask (started_pool 10)) = Returns None \<and>
   buf (taskChan (snd (SubmitTask 1 (Some Canceled) BuildTestTask (started_pool 10)))) =
     [BuildTestTask]"
  by (simp add: SubmitTask_def admit_def started_pool_def ready_cases_def send_ready_def
      select_case_def make_chan_def)

lemma SubmitTask_not_running:
  "\<not> running w \<Longrightarrow>
   SubmitTask choice ctx task w = (Returns (Some (New ''worker not running'')), w)"
  by (simp add: SubmitTask_def)

lemma SubmitTask_queue_full:
  "running w \<Longrightarrow> ctx = None \<Longrightarrow> \<not> closed (taskChan w) \<Longrightarrow>
   cap (taskChan w) \<le> length (buf (taskChan w)) \<Longrightarrow>
   SubmitTask choice ctx task w =
     (Returns (Some (New ''task queue full'')), w\<lparr>stats := RecordSubmission (stats w)\<rparr>)"
  by (simp add: SubmitTask_def admit_def ready_cases_def send_ready_def select_case_def)

lemma SubmitTask_accepts:
  "running w \<Longrightarrow> ctx = None \<Longrightarrow> \<not> closed (taskChan w) \<Longrightarrow>
   length (buf (taskChan w)) < cap (taskChan w) \<Longrightarrow>
   SubmitTask choice ctx task w =
     (Returns None,
      w\<lparr>stats := RecordSubmission (stats w),
        taskChan := (taskChan w)\<lparr>buf := buf (taskChan w) @ [task]\<rparr>\<rparr>)"
  by (simp add: SubmitTask_def admit_def ready_cases_def send_ready_def select_case_def)

lemma SubmitTask_done_and_full:
  "running w \<Longrightarrow> ctx = Some e \<Longrightarrow> \<not> closed (taskChan w) \<Longrightarrow>
   cap (taskChan w) \<le> length (buf (taskChan w)) \<Longrightarrow>
   SubmitTask choice ctx task w = (Returns (Some e), w\<lparr>stats := RecordSubmission (stats w)\<rparr>)"
  by (simp add: SubmitTask_def admit_def ready_cases_def send_ready_def select_case_def)

lemma SubmitTask_done_and_room:
  "running w \<Longrightarrow> ctx = Some e \<Longrightarrow> \<not> closed (taskChan w) \<Longrightarrow>
   length (buf (taskChan w)) < cap (taskChan w) \<Longrightarrow>
   SubmitTask choice ctx task w =
     (if even choice then (Returns (Some e), w\<lparr>stats := RecordSubmission (stats w)\<rparr>)
      else (Returns None,
            w\<lparr>stats := RecordSubmission (stats w),
              taskChan := (taskChan w)\<lparr>buf := buf (taskChan w) @ [task]\<rparr>\<rparr>))"
proof -
  assume a: "running w" "ctx = Some e" "\<not> closed (taskChan w)"
    "length (buf (taskChan w)) < cap (taskChan w)"
  have "choice mod 2 = (if even choice then 0 else 1)"
    by (simp add: mod_2_eq_odd)
  then have m: "choice mod Suc (Suc 0) = (if even choice then 0 else 1)"
    by (simp add: numeral_2_eq_2)
  have r: "ready_cases ctx (taskChan w) = [CaseDone, CaseSend]"
    using a by (simp add: ready_cases_def send_ready_def)
  show ?thesis
    using a by (simp add: SubmitTask_def admit_def select_case_def m
        ready_cases_def send_ready_def)
qed

lemma log_record_fields [simp]:
  "stats (log_record lvl msg w) = stats w" "calls (log_record lvl msg w) = calls w"
  "executor (log_record lvl msg w) = executor w" "repo (log_record lvl msg w) = repo w"
  "resultChan (log_record lvl msg w) = resultChan w" "taskChan (log_record lvl msg w) = taskChan w"
  "running (log_record lvl msg w) = running w"
  by (simp_all add: log_record_def)

lemma sendResult_fields [simp]:
  "stats (snd (sendResult choice ctx result w)) = stats w"
  "calls (snd (sendResult choice ctx result w)) = calls w"
  "executor (snd (sendResult choice ctx result w)) = executor w"
  "repo (snd (sendResult choice ctx result w)) = repo w"
  "taskChan (snd (sendResult choice ctx result w)) = taskChan w"
  "running (snd (sendResult choice ctx result w)) = running w"
  by (simp_all add: sendResult_def split: option.splits select_case.splits)



lemma note_failure_fields [simp]:
  "tasksProcessed (stats (note_failure task w)) = tasksProcessed (stats w)"
  "tasksFailed (stats (note_failure task w)) = tasksFailed (stats w)"
  "tasksSubmitted (stats (note_failure task w)) = tasksSubmitted (stats w)"
  "calls (note_failure task w) = calls w" "executor (note_failure task w) = executor w"
  "repo (note_failure task w) = repo w" "resultChan (note_failure task w) = resultChan w"
  "taskChan (note_failure task w) = taskChan w" "running (note_failure task w) = running w"
  by (simp_all add: note_failure_def Let_def RecordRetry_def)

lemma updateTaskStatus_eq:
  "updateTaskStatus c ctx taskID status w =
     (map_option (Errorf ''update status'') (fst (UpdateStatus c ctx taskID status (repo w))),
      w\<lparr>repo := snd (UpdateStatus c ctx taskID status (repo w)),
        calls := calls w @ [CallUpdateStatus taskID status]\<rparr>)"
  by (simp add: updateTaskStatus_def Let_def split: prod.splits option.splits)

lemma executeTask_first_update_fails:
  assumes "fst (UpdateStatus c ctx (ID task) TaskStatusProcessing (repo w)) = Some e"
  shows "executeTask c ctx task w =
     ((None, Some (Errorf ''update status'' (Errorf ''update status'' e))),
      w\<lparr>repo := snd (UpdateStatus c ctx (ID task) TaskStatusProcessing (repo w)),
        calls := calls w @ [CallUpdateStatus (ID task) TaskStatusProcessing]\<rparr>)"
  using assms by (simp add: executeTask_def updateTaskStatus_eq)

lemma processTask_error_path:
  assumes "executeTask c (WithTimeout ctx (deadline_passed ob)) task
             (log_record LevelInfo ''processing task'' (w\<lparr>stats := IncrementActive (stats w)\<rparr>)) =
           ((result, Some err), w3)"
  shows "processTask c ob ctx task workerID w =
           (fst (handleTaskError ob ctx task err w3),
            (snd (handleTaskError ob ctx task err w3))
              \<lparr>stats := DecrementActive (stats (snd (handleTaskError ob ctx task err w3)))\<rparr>)"
  using assms by (simp add: processTask_def Let_def split_beta)

lemma handleTaskError_fields:
  "tasksFailed (stats (snd (handleTaskError ob ctx task err w))) = tasksFailed (stats w) + 1"
  "tasksProcessed (stats (snd (handleTaskError ob ctx task err w))) = tasksProcessed (stats w)"
  "calls (snd (handleTaskError ob ctx task err w)) = calls w"
  "executor (snd (handleTaskError ob ctx task err w)) = executor w"
  by (simp_all add: handleTaskError_def Let_def RecordFailed_def)


text \<open>
  Claim C3. When the repository's \<open>UpdateStatus\<close> to Processing returns an error,
  \<open>processTask\<close> makes that one collaborator call and no other (the executor is not
  invoked and keeps its state), the processed counter stays as it was, and the failed
  counter goes up by one.
\<close>

theorem processTask_first_update_fails:
  assumes "fst (UpdateStatus c (WithTimeout ctx (deadline_passed ob)) (ID task)
                  TaskStatusProcessing (repo w)) = Some e"
  shows "calls (snd (processTask c ob ctx task workerID w)) =
           calls w @ [CallUpdateStatus (ID task) TaskStatusProcessing] \<and>
         CallExecute (ID task) \<notin> set (drop (length (calls w))
           (calls (snd (processTask c ob ctx task workerID w)))) \<and>
         executor (snd (processTask c ob ctx task workerID w)) = executor w \<and>
         tasksProcessed (stats (snd (processTask c ob ctx task workerID w))) =
           tasksProcessed (stats w) \<and>
         tasksFailed (stats (snd (processTask c ob ctx task workerID w))) =
           tasksFailed (stats w) + 1"
proof -
  let ?pctx = "WithTimeout ctx (deadline_passed ob)"
  let ?w2 = "log_record LevelInfo ''processing task'' (w\<lparr>stats := IncrementActive (stats w)\<rparr>)"
  have r: "fst (UpdateStatus c ?pctx (ID task) TaskStatusProcessing (repo ?w2)) = Some e"
    using assms by simp
  note p = processTask_error_path [OF executeTask_first_update_fails [OF r]]
  show ?thesis
    by (simp add: p handleTaskError_fields DecrementActive_def IncrementActive_def)
qed



text \<open>
  Claim C6. \<open>Shutdown\<close> on a pool that is not running returns "worker not running"
  and leaves the pool as it is; after a \<open>Shutdown\<close> that returned no error the pool is
  not running, so a second \<open>Shutdown\<close> returns "worker not running".
\<close>

theorem Shutdown_when_not_running:
  "(\<not> running w \<longrightarrow>
      Shutdown wt ctx w = (Returns (Some (New ''worker not running'')), w)) \<and>
   (fst (Shutdown wt ctx w) = Returns None \<longrightarrow>
      running w \<and> \<not> running (snd (Shutdown wt ctx w)) \<and>
      Shutdown wt' ctx' (snd (Shutdown wt ctx w)) =
        (Returns (Some (New ''worker not running'')), snd (Shutdown wt ctx w)))"
  by (simp add: Shutdown_def Let_def split: wait.splits)

theorem Shutdown_when_not_running_witness:
  "fst (Shutdown Drained None (started_pool 10)) = Returns None \<and>
   Shutdown Drained None (snd (Shutdown Drained None (started_pool 10))) =
     (Returns (Some (New ''worker not running'')), snd (Shutdown Drained None (started_pool 10))) \<and>
   \<not> running ((started_pool 10)\<lparr>running := False\<rparr>) \<and>
   Shutdown Drained None ((started_pool 10)\<lparr>running := False\<rparr>) =
     (Returns (Some (New ''worker not running'')), (started_pool 10)\<lparr>running := False\<rparr>)"
proof -
  have h: "fst (Shutdown Drained None (started_pool 10)) = Returns None"
    by (simp add: Shutdown_def Let_def started_pool_def make_chan_def)
  show ?thesis
    using h Shutdown_when_not_running [of "started_pool 10" Drained None Drained None]
      Shutdown_when_not_running [of "(started_pool 10)\<lparr>running := False\<rparr>" Drained None Drained None]
    by simp
qed

theorem processTask_first_update_fails_witness:
  "fst (UpdateStatus (MockCollaborators (Some (\<lambda>taskID status. Some (New ''database unavailable''))) None)
          (WithTimeout None (deadline_passed \<lparr>pick = 0, since = 5000000, now = 0, deadline_passed = False\<rparr>))
          (ID BuildTestTask) TaskStatusProcessing (repo (started_pool 10))) =
     Some (New ''database unavailable'') \<and>
   calls (snd (processTask
       (MockCollaborators (Some (\<lambda>taskID status. Some (New ''database unavailable''))) None)
       \<lparr>pick = 0, since = 5000000, now = 0, deadline_passed = False\<rparr> None BuildTestTask 0
       (started_pool 10))) =
     [CallUpdateStatus ''test-task-123'' TaskStatusProcessing] \<and>
   executor (snd (processTask
       (MockCollaborators (Some (\<lambda>taskID status. Some (New ''database unavailable''))) None)
       \<lparr>pick = 0, since = 5000000, now = 0, deadline_passed = False\<rparr> None BuildTestTask 0
       (started_pool 10))) = [] \<and>
   tasksProcessed (stats (snd (processTask
       (MockCollaborators (Some (\<lambda>taskID status. Some (New ''database unavailable''))) None)
       \<lparr>pick = 0, since = 5000000, now = 0, deadline_passed = False\<rparr> None BuildTestTask 0
       (started_pool 10)))) = 0 \<and>
   tasksFailed (stats (snd (processTask
       (MockCollaborators (Some (\<lambda>taskID status. Some (New ''database unavailable''))) None)
       \<lparr>pick = 0, since = 5000000, now = 0, deadline_passed = False\<rparr> None BuildTestTask 0
       (started_pool 10)))) = 1"
proof -
  have h: "fst (UpdateStatus (MockCollaborators (Some (\<lambda>taskID status. Some (New ''database unavailable''))) None)
          (WithTimeout None (deadline_passed \<lparr>pick = 0, since = 5000000, now = 0, deadline_passed = False\<rparr>))
          (ID BuildTestTask) TaskStatusProcessing (repo (started_pool 10))) =
     Some (New ''database unavailable'')"
    by (simp add: MockCollaborators_def)
  show ?thesis
    using h processTask_first_update_fails [OF h, of 0]
    by (simp add: started_pool_def NewWorkerStats_def BuildTestTask_def)
qed


section \<open>The counters under interleaving\<close>



lemma publishResult_fields [simp]:
  "stats (publishResult c ctx result w) = stats w"
  "taskChan (publishResult c ctx result w) = taskChan w"
  by (simp_all add: publishResult_def Let_def split_beta)

lemma Start_fields [simp]:
  "stats (snd (Start ctx w)) = stats w" "buf (taskChan (snd (Start ctx w))) = buf (taskChan w)"
  by (simp_all add: Start_def)

lemma Shutdown_fields [simp]:
  "tasksSubmitted (stats (snd (Shutdown wt ctx w))) = tasksSubmitted (stats w)"
  "tasksProcessed (stats (snd (Shutdown wt ctx w))) = tasksProcessed (stats w)"
  "tasksFailed (stats (snd (Shutdown wt ctx w))) = tasksFailed (stats w)"
  "buf (taskChan (snd (Shutdown wt ctx w))) = buf (taskChan w)"
  by (simp_all add: Shutdown_def Let_def Stop_def split: wait.splits)









lemma executeTask_running [simp]:
  "running (snd (executeTask c ctx task w)) = running w"
  by (simp add: executeTask_def updateTaskStatus_eq Let_def split_beta split: option.splits)







end
